theory Spec2Isabelle
  imports Main
begin

section \<open>The analysis plan of \<^verbatim>\<open>scripts/14_protein_structure_analysis.py\<close>\<close>

text \<open>
  The script is one straight-line module body: it creates a results directory, walks a
  hardcoded dictionary of proteins, builds one dictionary per protein, and hands the list
  to pandas, which writes it as a CSV file. The embedding follows the body top to bottom
  and keeps its variable names. Console output (the \<^verbatim>\<open>print\<close> calls) is left
  out: nothing below is about it, and it neither reads nor changes any value modelled here.
\<close>

subsection \<open>Data\<close>

text \<open>
  A value of the \<^verbatim>\<open>isoforms\<close> dictionary:
  \<^verbatim>\<open>{"ref_pdb": str or None, "mutation": str, "domain": str}\<close>.
\<close>

record isoform_info =
  ref_pdb :: "string option"
  mutation :: string
  domain :: string

text \<open>
  The dictionary \<^verbatim>\<open>result_entry\<close> built in the loop; its keys are the columns of
  the table. \<^verbatim>\<open>PDB_ID\<close> holds whatever \<^verbatim>\<open>info["ref_pdb"]\<close> held, so it may be
  \<^verbatim>\<open>None\<close>.
\<close>

record isoform_record =
  Protein :: string
  PDB_ID :: "string option"
  Mutation_Type :: string
  Domain_Affected :: string
  Analysis_Status :: string

text \<open>
  Python's truth value of \<^verbatim>\<open>info["ref_pdb"]\<close> in \<^verbatim>\<open>if info["ref_pdb"]:\<close>:
  \<^verbatim>\<open>None\<close> and the empty string are false, every other string is true.
\<close>

definition truthy :: "string option \<Rightarrow> bool" where
  "truthy v = (case v of None \<Rightarrow> False | Some s \<Rightarrow> s \<noteq> [])"

subsection \<open>Configuration\<close>

text \<open>
  \<^verbatim>\<open>isoforms\<close> is a dictionary literal. The script's f-strings need Python 3.6 or
  later, where a dictionary iterates in insertion order, so the dictionary is an
  association list in the order of the literal; its keys are distinct.
\<close>

definition isoforms :: "(string \<times> isoform_info) list" where
  "isoforms =
    [(''CCNB1'', \<lparr>ref_pdb = Some ''4Y72'', mutation = ''exon_skip_3'', domain = ''NES''\<rparr>),
     (''ENO2'', \<lparr>ref_pdb = Some ''2AKZ'', mutation = ''exon_skip_3'', domain = ''active_site''\<rparr>),
     (''CDK5RAP3'', \<lparr>ref_pdb = Some ''8OJ5'', mutation = ''intron_retention'',
        domain = ''LXXLL_motif''\<rparr>),
     (''LUC7L'', \<lparr>ref_pdb = None, mutation = ''exon_skip_2'', domain = ''RS_domain''\<rparr>)]"

subsection \<open>Processing each isoform\<close>

text \<open>
  The body of the loop: the dictionary is created with the status
  \<^verbatim>\<open>"Pending AlphaFold2 prediction"\<close>, which is then overwritten when the reference
  structure id is true.
\<close>

definition result_entry :: "string \<Rightarrow> isoform_info \<Rightarrow> isoform_record" where
  "result_entry protein info =
    (let entry = \<lparr>Protein = protein,
                   PDB_ID = ref_pdb info,
                   Mutation_Type = mutation info,
                   Domain_Affected = domain info,
                   Analysis_Status = ''Pending AlphaFold2 prediction''\<rparr>
     in if truthy (ref_pdb info)
        then entry\<lparr>Analysis_Status := ''Ready for RMSD/TM-score analysis''\<rparr>
        else entry)"

text \<open>
  \<^verbatim>\<open>for protein, info in isoforms.items(): ... results.append(result_entry)\<close>,
  with the list \<^verbatim>\<open>results\<close> as the accumulator.
\<close>

fun for_items :: "(string \<times> isoform_info) list \<Rightarrow> isoform_record list \<Rightarrow> isoform_record list" where
  "for_items [] results = results"
| "for_items ((protein, info) # items) results =
     for_items items (results @ [result_entry protein info])"

definition results :: "isoform_record list" where
  "results = for_items isoforms []"

subsection \<open>The table and its serialisation\<close>

text \<open>
  \<^verbatim>\<open>results_df = pd.DataFrame(results)\<close>. pandas is a library the script imports,
  not part of the repository; what follows is its documented behaviour for this call. A
  frame built from a list of dictionaries has one row per dictionary and the dictionaries'
  keys as columns, in the order the keys first appear; here every dictionary has the same
  five keys in the same order. An empty list gives a frame with no columns. A cell holds
  the dictionary's value, so a \<^verbatim>\<open>PDB_ID\<close> cell may be \<^verbatim>\<open>None\<close>.
\<close>

record data_frame =
  columns :: "string list"
  cells :: "string option list list"

definition DataFrame :: "isoform_record list \<Rightarrow> data_frame" where
  "DataFrame dicts =
    \<lparr>columns = (if dicts = [] then []
                else [''Protein'', ''PDB_ID'', ''Mutation_Type'', ''Domain_Affected'',
                      ''Analysis_Status'']),
     cells = map (\<lambda>d. [Some (Protein d), PDB_ID d, Some (Mutation_Type d),
                        Some (Domain_Affected d), Some (Analysis_Status d)]) dicts\<rparr>"

definition results_df :: data_frame where
  "results_df = DataFrame results"

text \<open>
  \<^verbatim>\<open>to_csv(path, index=False)\<close> with every other argument at its default: separator
  \<^verbatim>\<open>,\<close>, missing values written as the empty string (\<^verbatim>\<open>na_rep=''\<close>), a header
  line of the column names, no index column, each line ended by the platform's line separator
  (the line feed on POSIX, which the script's \<^verbatim>\<open>#!/usr/bin/env python3\<close> line
  addresses), and minimal quoting: a field is put in double quotes, with the double quotes
  inside it doubled, when it contains the separator, a double quote or a character of the
  line terminator.
\<close>

definition sep :: string where
  "sep = '',''"

definition na_rep :: string where
  "na_rep = []"

definition quotechar :: char where
  "quotechar = CHR 0x22"

definition lineterminator :: string where
  "lineterminator = [CHR 0x0A]"

definition needs_quoting :: "string \<Rightarrow> bool" where
  "needs_quoting field =
    list_ex (\<lambda>c. c \<in> set sep \<or> c = quotechar \<or> c \<in> set lineterminator) field"

definition csv_field :: "string \<Rightarrow> string" where
  "csv_field field =
    (if needs_quoting field
     then [quotechar] @ concat (map (\<lambda>c. if c = quotechar then [c, c] else [c]) field)
          @ [quotechar]
     else field)"

fun join :: "string \<Rightarrow> string list \<Rightarrow> string" where
  "join s [] = []"
| "join s [x] = x"
| "join s (x # y # ys) = x @ s @ join s (y # ys)"

definition writerow :: "string list \<Rightarrow> string" where
  "writerow row = join sep (map csv_field row)"

definition cell_text :: "string option \<Rightarrow> string" where
  "cell_text v = (case v of None \<Rightarrow> na_rep | Some s \<Rightarrow> s)"

definition csv_lines :: "data_frame \<Rightarrow> string list" where
  "csv_lines df = writerow (columns df) # map (\<lambda>row. writerow (map cell_text row)) (cells df)"

definition csv_text :: "data_frame \<Rightarrow> string" where
  "csv_text df = concat (map (\<lambda>line. line @ lineterminator) (csv_lines df))"

subsection \<open>The file system\<close>

text \<open>
  The script touches two paths, both relative to the working directory, which exists. A
  path is its list of components; the file system maps a path to what is there.
  Permissions, devices and disk space are not part of this state: the faults they cause
  are not handled by the script and end the run.
\<close>

type_synonym path = "string list"

datatype node = Dir | File string

type_synonym filesystem = "path \<rightharpoonup> node"

datatype py_error = FileExistsError | FileNotFoundError | NotADirectoryError | IsADirectoryError

definition output_dir :: path where
  "output_dir = [''structure_analysis_results'']"

definition plan_path :: path where
  "plan_path = output_dir @ [''protein_structures_analysis_plan.csv'']"

text \<open>
  \<^verbatim>\<open>output_dir.mkdir(exist_ok=True)\<close>: the directory is created when nothing is at
  the path; the \<^verbatim>\<open>FileExistsError\<close> of the operating system is swallowed when the
  path is a directory already, and raised again when it is something else.
\<close>

definition mkdir :: "path \<Rightarrow> filesystem \<Rightarrow> py_error + filesystem" where
  "mkdir p fs =
    (case fs p of
       None \<Rightarrow> Inr (fs(p \<mapsto> Dir))
     | Some Dir \<Rightarrow> Inr fs
     | Some (File _) \<Rightarrow> Inl FileExistsError)"

text \<open>
  Opening a path for writing (mode \<^verbatim>\<open>w\<close>) and writing the text: the file is created,
  or truncated when it exists; a directory at the path, or no directory above it, is an
  error.
\<close>

definition write_file :: "path \<Rightarrow> string \<Rightarrow> filesystem \<Rightarrow> py_error + filesystem" where
  "write_file p text fs =
    (case fs (butlast p) of
       None \<Rightarrow> Inl FileNotFoundError
     | Some (File _) \<Rightarrow> Inl NotADirectoryError
     | Some Dir \<Rightarrow>
         (case fs p of
            Some Dir \<Rightarrow> Inl IsADirectoryError
          | _ \<Rightarrow> Inr (fs(p \<mapsto> File text))))"

definition to_csv :: "data_frame \<Rightarrow> path \<Rightarrow> filesystem \<Rightarrow> py_error + filesystem" where
  "to_csv df p fs = write_file p (csv_text df) fs"

subsection \<open>The run\<close>

text \<open>
  The module body in the order of its effects: the directory first, the file last. An
  exception is not caught anywhere, so the first error ends the run.
\<close>

definition script :: "filesystem \<Rightarrow> py_error + filesystem" where
  "script fs =
    (case mkdir output_dir fs of
       Inl e \<Rightarrow> Inl e
     | Inr fs1 \<Rightarrow> to_csv results_df plan_path fs1)"

subsection \<open>Reading the file back\<close>

text \<open>
  The lines of a text file: the runs of characters between line feeds, as a later stage
  that opens the plan reads them. A last line with no line feed after it is a line too.
\<close>

fun splitlines :: "string \<Rightarrow> string list" where
  "splitlines [] = []"
| "splitlines (c # cs) =
     (if c = CHR 0x0A then [] # splitlines cs
      else (case splitlines cs of
              [] \<Rightarrow> [[c]]
            | line # lines \<Rightarrow> (c # line) # lines))"

text \<open>The fields of a line that has no quoted field: the runs between commas.\<close>

fun split_fields :: "string \<Rightarrow> string list" where
  "split_fields [] = [[]]"
| "split_fields (c # cs) =
     (if c = CHR '','' then [] # split_fields cs
      else (case split_fields cs of
              [] \<Rightarrow> [[c]]
            | field # rest \<Rightarrow> (c # field) # rest))"

section \<open>Properties\<close>

lemma for_items_map:
  "for_items items acc = acc @ map (\<lambda>(protein, info). result_entry protein info) items"
  by (induction items arbitrary: acc) auto

subsection \<open>The loop and the serialisation, computed\<close>

lemmas csv_defs = csv_lines_def writerow_def csv_field_def needs_quoting_def sep_def
  quotechar_def lineterminator_def cell_text_def na_rep_def DataFrame_def

lemma results_eq: "results = map (\<lambda>(protein, info). result_entry protein info) isoforms"
  by (simp add: results_def for_items_map)

lemma results_value:
  "results =
    [\<lparr>Protein = ''CCNB1'', PDB_ID = Some ''4Y72'', Mutation_Type = ''exon_skip_3'',
       Domain_Affected = ''NES'', Analysis_Status = ''Ready for RMSD/TM-score analysis''\<rparr>,
     \<lparr>Protein = ''ENO2'', PDB_ID = Some ''2AKZ'', Mutation_Type = ''exon_skip_3'',
       Domain_Affected = ''active_site'',
       Analysis_Status = ''Ready for RMSD/TM-score analysis''\<rparr>,
     \<lparr>Protein = ''CDK5RAP3'', PDB_ID = Some ''8OJ5'', Mutation_Type = ''intron_retention'',
       Domain_Affected = ''LXXLL_motif'',
       Analysis_Status = ''Ready for RMSD/TM-score analysis''\<rparr>,
     \<lparr>Protein = ''LUC7L'', PDB_ID = None, Mutation_Type = ''exon_skip_2'',
       Domain_Affected = ''RS_domain'', Analysis_Status = ''Pending AlphaFold2 prediction''\<rparr>]"
  by (simp add: results_eq isoforms_def result_entry_def truthy_def)

lemma csv_lines_results_df:
  "csv_lines results_df =
    [''Protein,PDB_ID,Mutation_Type,Domain_Affected,Analysis_Status'',
     ''CCNB1,4Y72,exon_skip_3,NES,Ready for RMSD/TM-score analysis'',
     ''ENO2,2AKZ,exon_skip_3,active_site,Ready for RMSD/TM-score analysis'',
     ''CDK5RAP3,8OJ5,intron_retention,LXXLL_motif,Ready for RMSD/TM-score analysis'',
     ''LUC7L,,exon_skip_2,RS_domain,Pending AlphaFold2 prediction'']"
  by (simp add: results_df_def results_value csv_defs)

lemma splitlines_csv_text_results_df:
  "splitlines (csv_text results_df) = csv_lines results_df"
  by (simp add: csv_text_def csv_lines_results_df lineterminator_def)

lemma data_lines_for_items:
  "tl (csv_lines (DataFrame (for_items items []))) =
    map (\<lambda>(protein, info).
          writerow [protein, cell_text (ref_pdb info), mutation info, domain info,
                    Analysis_Status (result_entry protein info)]) items"
  by (simp add: csv_lines_def DataFrame_def for_items_map result_entry_def cell_text_def
      case_prod_unfold Let_def)

lemma count_list_distinct:
  "distinct xs \<Longrightarrow> count_list xs x = (if x \<in> set xs then 1 else 0)"
  by (induction xs) auto

text \<open>
  Every run of the script, by what is at the two paths beforehand: a file where the
  directory should be, or a directory where the plan should be, ends the run with an
  exception; otherwise the directory exists afterwards and the plan holds the table.
\<close>

lemma script_cases:
  "script fs =
    (case fs output_dir of
       Some (File t) \<Rightarrow> Inl FileExistsError
     | _ \<Rightarrow> (case fs plan_path of
               Some Dir \<Rightarrow> Inl IsADirectoryError
             | _ \<Rightarrow> Inr (fs(output_dir \<mapsto> Dir, plan_path \<mapsto> File (csv_text results_df)))))"
  by (auto simp: script_def mkdir_def to_csv_def write_file_def plan_path_def output_dir_def
      split: option.splits node.splits)

subsection \<open>The records\<close>

text \<open>
  C1. For every record of the table, built from any configuration and so from the
  hardcoded one, \<^verbatim>\<open>Analysis_Status\<close> is \<^verbatim>\<open>"Ready for RMSD/TM-score analysis"\<close>
  exactly when the protein's reference structure id is true, and
  \<^verbatim>\<open>"Pending AlphaFold2 prediction"\<close> exactly when it is not; an id is true when it
  is neither \<^verbatim>\<open>None\<close> nor the empty string.
\<close>

theorem analysis_status_iff_reference:
  "list_all2 (\<lambda>record (protein, info).
       (Analysis_Status record = ''Ready for RMSD/TM-score analysis''
          \<longleftrightarrow> truthy (ref_pdb info)) \<and>
       (Analysis_Status record = ''Pending AlphaFold2 prediction''
          \<longleftrightarrow> \<not> truthy (ref_pdb info)))
     (for_items items []) items
   \<and> (truthy v \<longleftrightarrow> v \<noteq> None \<and> v \<noteq> Some [])"
  by (cases v)
    (simp_all add: for_items_map list_all2_map1 list_all2_same result_entry_def truthy_def
      case_prod_unfold Let_def)

text \<open>
  C10. Deriving the status touches \<^verbatim>\<open>Analysis_Status\<close> only: in every record of the
  table the other four fields are the configuration's key and values as they stand, and a
  record with its status put aside is the same whichever branch set the status.
\<close>

theorem status_derivation_frame:
  "list_all2 (\<lambda>record (protein, info).
       Protein record = protein \<and> PDB_ID record = ref_pdb info \<and>
       Mutation_Type record = mutation info \<and> Domain_Affected record = domain info)
     (for_items items []) items
   \<and> (result_entry protein info)\<lparr>Analysis_Status := s\<rparr> =
       \<lparr>Protein = protein, PDB_ID = ref_pdb info, Mutation_Type = mutation info,
        Domain_Affected = domain info, Analysis_Status = s\<rparr>"
  by (simp add: for_items_map list_all2_map1 list_all2_same result_entry_def
      case_prod_unfold Let_def)

text \<open>
  C2. For the hardcoded configuration the table has one row per configured protein and no
  other row: as many records as keys, the records' proteins are the keys in order, no
  protein twice, each key counted once and anything else not at all; the frame has as many
  rows, and the file one line more, the header.
\<close>

theorem one_row_per_protein:
  "length results = length isoforms \<and>
   map Protein results = map fst isoforms \<and>
   distinct (map Protein results) \<and>
   (\<forall>protein. count_list (map Protein results) protein =
      (if protein \<in> fst ` set isoforms then 1 else 0)) \<and>
   length (cells results_df) = length isoforms \<and>
   length (splitlines (csv_text results_df)) = 1 + length isoforms"
proof -
  have names: "map Protein results = map fst isoforms"
    by (simp add: results_eq result_entry_def case_prod_unfold Let_def)
  have dist: "distinct (map fst isoforms)"
    by (simp add: isoforms_def)
  have len: "length results = length isoforms"
    by (simp add: results_eq)
  have count: "count_list (map Protein results) protein =
      (if protein \<in> fst ` set isoforms then 1 else 0)" for protein
    using count_list_distinct [OF dist, of protein] by (simp add: names)
  have rows: "length (cells results_df) = length isoforms"
    by (simp add: results_df_def DataFrame_def len)
  have lines: "length (splitlines (csv_text results_df)) = 1 + length isoforms"
    by (simp add: splitlines_csv_text_results_df csv_lines_def rows)
  from names dist len count rows lines show ?thesis
    by simp
qed


subsection \<open>The file\<close>

text \<open>
  C3. After a run that ends without an exception, the plan holds the table, and its data
  lines, read back and split into fields, are the configuration's entries in the
  configuration's iteration order: the first fields are CCNB1, ENO2, CDK5RAP3, LUC7L.
\<close>

theorem rows_in_configuration_order:
  assumes "script fs = Inr fs'"
  shows "fs' plan_path = Some (File (csv_text results_df)) \<and>
    map split_fields (tl (splitlines (csv_text results_df))) =
      map (\<lambda>(protein, info).
            [protein, (case ref_pdb info of None \<Rightarrow> [] | Some pdb \<Rightarrow> pdb), mutation info,
             domain info, Analysis_Status (result_entry protein info)]) isoforms \<and>
    map (takeWhile (\<lambda>c. c \<noteq> CHR '','')) (tl (splitlines (csv_text results_df))) =
      map fst isoforms \<and>
    map fst isoforms = [''CCNB1'', ''ENO2'', ''CDK5RAP3'', ''LUC7L'']"
proof -
  have written: "fs' plan_path = Some (File (csv_text results_df))"
    using assms by (auto simp: script_cases split: option.splits node.splits)
  have rows: "map split_fields (tl (splitlines (csv_text results_df))) =
      map (\<lambda>(protein, info).
            [protein, (case ref_pdb info of None \<Rightarrow> [] | Some pdb \<Rightarrow> pdb), mutation info,
             domain info, Analysis_Status (result_entry protein info)]) isoforms"
    by (simp add: splitlines_csv_text_results_df csv_lines_results_df)
      (simp add: isoforms_def result_entry_def truthy_def)
  have firsts: "map (takeWhile (\<lambda>c. c \<noteq> CHR '','')) (tl (splitlines (csv_text results_df))) =
      map fst isoforms"
    by (simp add: splitlines_csv_text_results_df csv_lines_results_df) (simp add: isoforms_def)
  have keys: "map fst isoforms = [''CCNB1'', ''ENO2'', ''CDK5RAP3'', ''LUC7L'']"
    by (simp add: isoforms_def)
  from written rows firsts keys show ?thesis
    by (intro conjI)
qed

theorem rows_in_configuration_order_witness:
  "script Map.empty =
     Inr [output_dir \<mapsto> Dir, plan_path \<mapsto> File (csv_text results_df)] \<and>
   map (takeWhile (\<lambda>c. c \<noteq> CHR '','')) (tl (splitlines (csv_text results_df))) =
     [''CCNB1'', ''ENO2'', ''CDK5RAP3'', ''LUC7L'']"
proof -
  have run: "script Map.empty =
      Inr [output_dir \<mapsto> Dir, plan_path \<mapsto> File (csv_text results_df)]"
    by (simp add: script_cases)
  from rows_in_configuration_order [OF run] run show ?thesis
    by simp
qed

text \<open>
  C4, as the script has it. A run that ends without an exception changes the file system at
  two paths only: \<^verbatim>\<open>structure_analysis_results\<close> is a directory, and the one file
  \<^verbatim>\<open>protein_structures_analysis_plan.csv\<close> in it holds the table. The first line of
  the file is \<^verbatim>\<open>Protein,PDB_ID,Mutation_Type,Domain_Affected,Analysis_Status\<close>, the
  column names joined by commas with no space; one data line per configured protein
  follows, in configuration order, and the \<^verbatim>\<open>PDB_ID\<close> field of a line is the
  protein's reference structure id, empty when the id is absent.
\<close>

theorem plan_file_written:
  assumes "script fs = Inr fs'"
  shows "fs' = fs(output_dir \<mapsto> Dir, plan_path \<mapsto> File (csv_text results_df)) \<and>
    output_dir = [''structure_analysis_results''] \<and>
    plan_path = [''structure_analysis_results'', ''protein_structures_analysis_plan.csv''] \<and>
    hd (splitlines (csv_text results_df)) =
      ''Protein,PDB_ID,Mutation_Type,Domain_Affected,Analysis_Status'' \<and>
    length (tl (splitlines (csv_text results_df))) = length isoforms \<and>
    map (\<lambda>line. split_fields line ! 0) (tl (splitlines (csv_text results_df))) =
      map fst isoforms \<and>
    map (\<lambda>line. split_fields line ! 1) (tl (splitlines (csv_text results_df))) =
      map (\<lambda>(protein, info). case ref_pdb info of None \<Rightarrow> [] | Some pdb \<Rightarrow> pdb) isoforms"
proof -
  have state: "fs' = fs(output_dir \<mapsto> Dir, plan_path \<mapsto> File (csv_text results_df))"
    using assms by (auto simp: script_cases split: option.splits node.splits)
  have paths: "output_dir = [''structure_analysis_results''] \<and>
      plan_path = [''structure_analysis_results'', ''protein_structures_analysis_plan.csv'']"
    by (simp add: plan_path_def output_dir_def)
  have header: "hd (splitlines (csv_text results_df)) =
      ''Protein,PDB_ID,Mutation_Type,Domain_Affected,Analysis_Status''"
    by (simp add: splitlines_csv_text_results_df csv_lines_results_df)
  have count: "length (tl (splitlines (csv_text results_df))) = length isoforms"
    by (simp add: splitlines_csv_text_results_df csv_lines_results_df isoforms_def)
  have proteins: "map (\<lambda>line. split_fields line ! 0) (tl (splitlines (csv_text results_df))) =
      map fst isoforms"
    by (simp add: splitlines_csv_text_results_df csv_lines_results_df) (simp add: isoforms_def)
  have ids: "map (\<lambda>line. split_fields line ! 1) (tl (splitlines (csv_text results_df))) =
      map (\<lambda>(protein, info). case ref_pdb info of None \<Rightarrow> [] | Some pdb \<Rightarrow> pdb) isoforms"
    by (simp add: splitlines_csv_text_results_df csv_lines_results_df) (simp add: isoforms_def)
  from state paths header count proteins ids show ?thesis
    by (intro conjI) simp_all
qed

theorem plan_file_written_witness:
  "script Map.empty =
     Inr [output_dir \<mapsto> Dir, plan_path \<mapsto> File (csv_text results_df)] \<and>
   hd (splitlines (csv_text results_df)) =
     ''Protein,PDB_ID,Mutation_Type,Domain_Affected,Analysis_Status'' \<and>
   map (\<lambda>line. split_fields line ! 1) (tl (splitlines (csv_text results_df))) =
     [''4Y72'', ''2AKZ'', ''8OJ5'', '''']"
proof -
  have run: "script Map.empty =
      Inr [output_dir \<mapsto> Dir, plan_path \<mapsto> File (csv_text results_df)]"
    by (simp add: script_cases)
  from plan_file_written [OF run] run show ?thesis
    by (simp add: isoforms_def)
qed

text \<open>
  C4 as it is worded fails: the header with a space after each comma is not the first line
  of the file. Run in an empty working directory, the script writes the column names with
  nothing but a comma between them.
\<close>

theorem spaced_header_counterexample:
  "script Map.empty =
     Inr [output_dir \<mapsto> Dir, plan_path \<mapsto> File (csv_text results_df)] \<and>
   hd (splitlines (csv_text results_df)) \<noteq>
     ''Protein, PDB_ID, Mutation_Type, Domain_Affected, Analysis_Status''"
  by (simp add: script_cases splitlines_csv_text_results_df csv_lines_results_df)

text \<open>
  What a successful run leaves at the plan's path, and the data line of any configured
  entry among the lines the writer produces.
\<close>

lemma script_writes_plan:
  assumes "script fs = Inr fs'"
  shows "fs' plan_path = Some (File (csv_text results_df))"
  using assms by (auto simp: script_cases split: option.splits node.splits)

lemma entry_data_line:
  assumes "(protein, info) \<in> set items"
  shows "writerow [protein, cell_text (ref_pdb info), mutation info, domain info,
                   Analysis_Status (result_entry protein info)]
      \<in> set (tl (csv_lines (DataFrame (for_items items []))))"
  using assms by (force simp: data_lines_for_items)

text \<open>
  C5. The configuration maps CCNB1 to the reference structure 4Y72, the mutation
  \<^verbatim>\<open>exon_skip_3\<close> and the domain NES, and after every run that ends without an
  exception the file at the plan's path has
  \<^verbatim>\<open>CCNB1,4Y72,exon_skip_3,NES,Ready for RMSD/TM-score analysis\<close> among its data
  lines.
\<close>

theorem ccnb1_row:
  assumes "script fs = Inr fs'"
  shows "(''CCNB1'', \<lparr>ref_pdb = Some ''4Y72'', mutation = ''exon_skip_3'', domain = ''NES''\<rparr>)
      \<in> set isoforms \<and>
    (\<exists>text. fs' plan_path = Some (File text) \<and>
       ''CCNB1,4Y72,exon_skip_3,NES,Ready for RMSD/TM-score analysis''
         \<in> set (tl (splitlines text)))"
proof -
  have entry: "(''CCNB1'', \<lparr>ref_pdb = Some ''4Y72'', mutation = ''exon_skip_3'', domain = ''NES''\<rparr>)
      \<in> set isoforms"
    by (simp add: isoforms_def)
  have "writerow [''CCNB1'', cell_text (Some ''4Y72''), ''exon_skip_3'', ''NES'',
      Analysis_Status (result_entry ''CCNB1''
        \<lparr>ref_pdb = Some ''4Y72'', mutation = ''exon_skip_3'', domain = ''NES''\<rparr>)]
      = ''CCNB1,4Y72,exon_skip_3,NES,Ready for RMSD/TM-score analysis''"
    by (simp add: result_entry_def truthy_def csv_defs)
  with entry_data_line [OF entry]
  have "''CCNB1,4Y72,exon_skip_3,NES,Ready for RMSD/TM-score analysis''
      \<in> set (tl (csv_lines results_df))"
    by (simp add: results_df_def results_def)
  then have line: "''CCNB1,4Y72,exon_skip_3,NES,Ready for RMSD/TM-score analysis''
      \<in> set (tl (splitlines (csv_text results_df)))"
    by (simp only: splitlines_csv_text_results_df)
  from script_writes_plan [OF assms] line entry show ?thesis
    by blast
qed

theorem ccnb1_row_witness:
  "script Map.empty =
     Inr [output_dir \<mapsto> Dir, plan_path \<mapsto> File (csv_text results_df)] \<and>
   (\<exists>text. [output_dir \<mapsto> Dir, plan_path \<mapsto> File (csv_text results_df)] plan_path
        = Some (File text) \<and>
      ''CCNB1,4Y72,exon_skip_3,NES,Ready for RMSD/TM-score analysis''
        \<in> set (tl (splitlines text)))"
proof -
  have run: "script Map.empty =
      Inr [output_dir \<mapsto> Dir, plan_path \<mapsto> File (csv_text results_df)]"
    by (simp add: script_cases)
  from ccnb1_row [OF run] run show ?thesis
    by (intro conjI) (rule run, blast)
qed

text \<open>
  C6. The configuration maps LUC7L to no reference structure, the mutation
  \<^verbatim>\<open>exon_skip_2\<close> and the domain \<^verbatim>\<open>RS_domain\<close>, and after every run that ends
  without an exception the file at the plan's path has
  \<^verbatim>\<open>LUC7L,,exon_skip_2,RS_domain,Pending AlphaFold2 prediction\<close> among its data
  lines. It is the only data line of the file whose first field is LUC7L, and its second
  field, the absent id, is empty.
\<close>

theorem luc7l_row:
  assumes "script fs = Inr fs'"
  shows "(''LUC7L'', \<lparr>ref_pdb = None, mutation = ''exon_skip_2'', domain = ''RS_domain''\<rparr>)
      \<in> set isoforms \<and>
    (\<exists>text. fs' plan_path = Some (File text) \<and>
       ''LUC7L,,exon_skip_2,RS_domain,Pending AlphaFold2 prediction''
         \<in> set (tl (splitlines text)) \<and>
       filter (\<lambda>fields. take 1 fields = [''LUC7L''])
           (map split_fields (tl (splitlines text))) =
         [[''LUC7L'', [], ''exon_skip_2'', ''RS_domain'', ''Pending AlphaFold2 prediction'']])"
proof -
  have entry: "(''LUC7L'', \<lparr>ref_pdb = None, mutation = ''exon_skip_2'', domain = ''RS_domain''\<rparr>)
      \<in> set isoforms"
    by (simp add: isoforms_def)
  have "writerow [''LUC7L'', cell_text None, ''exon_skip_2'', ''RS_domain'',
      Analysis_Status (result_entry ''LUC7L''
        \<lparr>ref_pdb = None, mutation = ''exon_skip_2'', domain = ''RS_domain''\<rparr>)]
      = ''LUC7L,,exon_skip_2,RS_domain,Pending AlphaFold2 prediction''"
    by (simp add: result_entry_def truthy_def csv_defs)
  with entry_data_line [OF entry]
  have "''LUC7L,,exon_skip_2,RS_domain,Pending AlphaFold2 prediction''
      \<in> set (tl (csv_lines results_df))"
    by (simp add: results_df_def results_def)
  then have line: "''LUC7L,,exon_skip_2,RS_domain,Pending AlphaFold2 prediction''
      \<in> set (tl (splitlines (csv_text results_df)))"
    by (simp only: splitlines_csv_text_results_df)
  have only: "filter (\<lambda>fields. take 1 fields = [''LUC7L''])
        (map split_fields (tl (splitlines (csv_text results_df)))) =
      [[''LUC7L'', [], ''exon_skip_2'', ''RS_domain'', ''Pending AlphaFold2 prediction'']]"
    by (simp add: splitlines_csv_text_results_df csv_lines_results_df)
  from script_writes_plan [OF assms] line only entry show ?thesis
    by blast
qed

theorem luc7l_row_witness:
  "script Map.empty =
     Inr [output_dir \<mapsto> Dir, plan_path \<mapsto> File (csv_text results_df)] \<and>
   (\<exists>text. [output_dir \<mapsto> Dir, plan_path \<mapsto> File (csv_text results_df)] plan_path
        = Some (File text) \<and>
      ''LUC7L,,exon_skip_2,RS_domain,Pending AlphaFold2 prediction''
        \<in> set (tl (splitlines text)) \<and>
      filter (\<lambda>fields. take 1 fields = [''LUC7L''])
          (map split_fields (tl (splitlines text))) =
        [[''LUC7L'', [], ''exon_skip_2'', ''RS_domain'', ''Pending AlphaFold2 prediction'']])"
proof -
  have run: "script Map.empty =
      Inr [output_dir \<mapsto> Dir, plan_path \<mapsto> File (csv_text results_df)]"
    by (simp add: script_cases)
  from luc7l_row [OF run] run show ?thesis
    by (intro conjI) (rule run, blast)
qed

subsection \<open>Running again\<close>

text \<open>
  C7. When the results directory exists already, with or without a plan file from an
  earlier run in it, the run raises nothing: creating the directory leaves the file system
  as it was, and the plan file holds the fresh table whatever it held before.
\<close>

theorem existing_directory_no_error:
  assumes "fs output_dir = Some Dir"
    and "fs plan_path = None \<or> fs plan_path = Some (File old)"
  shows "mkdir output_dir fs = Inr fs \<and>
    script fs = Inr (fs(plan_path \<mapsto> File (csv_text results_df)))"
proof -
  have same: "fs(output_dir \<mapsto> Dir) = fs"
    using assms(1) by (simp add: map_upd_triv)
  have "mkdir output_dir fs = Inr fs"
    using assms(1) by (simp add: mkdir_def)
  moreover have "script fs = Inr (fs(plan_path \<mapsto> File (csv_text results_df)))"
    using assms by (auto simp: script_cases same)
  ultimately show ?thesis
    by simp
qed

theorem existing_directory_no_error_witness:
  "[output_dir \<mapsto> Dir, plan_path \<mapsto> File ''stale''] output_dir = Some Dir \<and>
   [output_dir \<mapsto> Dir, plan_path \<mapsto> File ''stale''] plan_path = Some (File ''stale'') \<and>
   script [output_dir \<mapsto> Dir, plan_path \<mapsto> File ''stale''] =
     Inr [output_dir \<mapsto> Dir, plan_path \<mapsto> File (csv_text results_df)] \<and>
   script [output_dir \<mapsto> Dir] =
     Inr [output_dir \<mapsto> Dir, plan_path \<mapsto> File (csv_text results_df)]"
proof -
  have dir: "[output_dir \<mapsto> Dir, plan_path \<mapsto> File ''stale''] output_dir = Some Dir"
    by (simp add: plan_path_def output_dir_def)
  have old: "[output_dir \<mapsto> Dir, plan_path \<mapsto> File ''stale''] plan_path = Some (File ''stale'')"
    by simp
  have dir': "[output_dir \<mapsto> Dir] output_dir = Some Dir"
    by simp
  have none: "[output_dir \<mapsto> Dir] plan_path = None"
    by (simp add: plan_path_def output_dir_def)
  from existing_directory_no_error
      [of "[output_dir \<mapsto> Dir, plan_path \<mapsto> File ''stale'']" "''stale''", OF dir disjI2 [OF old]]
    existing_directory_no_error
      [of "[output_dir \<mapsto> Dir]" "''stale''", OF dir' disjI1 [OF none]]
    dir old
  show ?thesis
    by simp
qed

text \<open>
  C8. Any two runs that end without an exception, from whatever file systems they start,
  leave the same bytes in the plan file; and running the script again on the state a run
  left behind changes nothing.
\<close>

theorem reruns_byte_identical:
  assumes "script fs1 = Inr fs1'" and "script fs2 = Inr fs2'"
  shows "fs1' plan_path = fs2' plan_path \<and>
    fs1' plan_path = Some (File (csv_text results_df)) \<and>
    script fs1' = Inr fs1'"
proof -
  have first: "fs1' = fs1(output_dir \<mapsto> Dir, plan_path \<mapsto> File (csv_text results_df))"
    using assms(1) by (auto simp: script_cases split: option.splits node.splits)
  have second: "fs2' = fs2(output_dir \<mapsto> Dir, plan_path \<mapsto> File (csv_text results_df))"
    using assms(2) by (auto simp: script_cases split: option.splits node.splits)
  have differ: "output_dir \<noteq> plan_path"
    by (simp add: plan_path_def output_dir_def)
  have again: "script fs1' = Inr fs1'"
    using differ by (simp add: script_cases first fun_upd_twist)
  from first second again show ?thesis
    by simp
qed

theorem reruns_byte_identical_witness:
  "script Map.empty =
     Inr [output_dir \<mapsto> Dir, plan_path \<mapsto> File (csv_text results_df)] \<and>
   script [output_dir \<mapsto> Dir, plan_path \<mapsto> File ''stale''] =
     Inr [output_dir \<mapsto> Dir, plan_path \<mapsto> File (csv_text results_df)] \<and>
   script [output_dir \<mapsto> Dir, plan_path \<mapsto> File (csv_text results_df)] =
     Inr [output_dir \<mapsto> Dir, plan_path \<mapsto> File (csv_text results_df)]"
proof -
  have differ: "output_dir \<noteq> plan_path"
    by (simp add: plan_path_def output_dir_def)
  have run1: "script Map.empty =
      Inr [output_dir \<mapsto> Dir, plan_path \<mapsto> File (csv_text results_df)]"
    by (simp add: script_cases)
  have run2: "script [output_dir \<mapsto> Dir, plan_path \<mapsto> File ''stale''] =
      Inr [output_dir \<mapsto> Dir, plan_path \<mapsto> File (csv_text results_df)]"
    using differ by (simp add: script_cases fun_upd_twist)
  from reruns_byte_identical [OF run1 run2] run1 run2 show ?thesis
    by simp
qed

end
